theory Spec2Isabelle
  imports Complex_Main
begin

section \<open>Cuboid and circumscribing ellipsoid: the geometry of CuboidToEllipsoid.py\<close>

text \<open>
  The development embeds the one function of the program,
  \<^verbatim>\<open>plot_cuboid_and_ellipsoid(a, b, c, annotate_vertices=False)\<close>.

  Numbers. The Python numbers \<^verbatim>\<open>a\<close>, \<^verbatim>\<open>b\<close>, \<^verbatim>\<open>c\<close> and what is computed from them
  appear as \<^typ>\<open>real\<close>, so that the calls have their arguments. The properties below
  are about the edge list, about the bounds of the indices and about which calls the
  annotation flag adds; none of them refers to the value of a number. No property of
  the values themselves is stated: the source computes them in IEEE double arithmetic
  (rounding, underflow, overflow of a large integer, the library's sine and cosine),
  which this embedding does not represent.
  Indices are Python integers, represented by \<^typ>\<open>int\<close>.

  Effects. The function returns nothing; what it does is a sequence of calls on the
  plotting library. The model threads the log of these calls through the function
  (explicit state passing), so that each drawing statement of the source appends one call.
  Constant presentation keywords (\<^verbatim>\<open>color\<close>, \<^verbatim>\<open>linewidth\<close>, \<^verbatim>\<open>alpha\<close>, strides,
  font size) are not part of the log.
\<close>

unbundle bit_operations_syntax

subsection \<open>Data\<close>

type_synonym vertex = "real \<times> real \<times> real"

datatype py_error = IndexError

datatype call =
    Figure
  | Add_subplot
  | Plot "real \<times> real" "real \<times> real" "real \<times> real"
  | Scatter real real real
  | Text real real real nat
  | Plot_surface "real list list" "real list list" "real list list"
  | Set_xlim real real
  | Set_ylim real real
  | Set_zlim real real
  | Set_xlabel string
  | Set_ylabel string
  | Set_zlabel string
  | Set_title real real real
  | Show

subsection \<open>Step 1 and 2: half-dimensions and vertices\<close>

text \<open>\<^verbatim>\<open>hx, hy, hz = a/2, b/2, c/2\<close>\<close>

definition hx :: "real \<Rightarrow> real" where
  "hx a = a / 2"

definition hy :: "real \<Rightarrow> real" where
  "hy b = b / 2"

definition hz :: "real \<Rightarrow> real" where
  "hz c = c / 2"

text \<open>
  \<^verbatim>\<open>corners = np.array([[sx*hx, sy*hy, sz*hz] for sx in (-1, 1) for sy in (-1, 1) for sz in (-1, 1)])\<close>:
  an array of 8 rows of 3 numbers; a row is a triple here.
\<close>

definition corners :: "real \<Rightarrow> real \<Rightarrow> real \<Rightarrow> vertex list" where
  "corners a b c =
     [(sx * hx a, sy * hy b, sz * hz c). sx \<leftarrow> [- 1, 1], sy \<leftarrow> [- 1, 1], sz \<leftarrow> [- 1, 1]]"

subsection \<open>Step 3: edges\<close>

definition edges :: "(int \<times> int) list" where
  "edges =
     [(0, 1), (0, 2), (0, 4),
      (1, 3), (1, 5),
      (2, 3), (2, 6),
      (3, 7),
      (4, 5), (4, 6),
      (5, 7),
      (6, 7)]"

subsection \<open>Step 4: semi-axes\<close>

text \<open>\<^verbatim>\<open>k = np.sqrt(3) / 2\<close> (the source's \<^verbatim>\<open>k\<close>) and \<^verbatim>\<open>rx, ry, rz = k * a, k * b, k * c\<close>.\<close>

definition k_scale :: real where
  "k_scale = sqrt 3 / 2"

definition rx :: "real \<Rightarrow> real" where
  "rx a = k_scale * a"

definition ry :: "real \<Rightarrow> real" where
  "ry b = k_scale * b"

definition rz :: "real \<Rightarrow> real" where
  "rz c = k_scale * c"

subsection \<open>Step 6: indexing and the edge loop\<close>

text \<open>
  \<^verbatim>\<open>corners[i]\<close> on the first axis of the array: a negative index counts from the end,
  an index out of range raises IndexError.
\<close>

definition getitem :: "'a list \<Rightarrow> int \<Rightarrow> py_error + 'a" where
  "getitem xs i =
     (if 0 \<le> i \<and> i < int (length xs) then Inr (xs ! nat i)
      else if i < 0 \<and> - int (length xs) \<le> i then Inr (xs ! nat (int (length xs) + i))
      else Inl IndexError)"

text \<open>\<^verbatim>\<open>xs, ys, zs = zip(corners[i], corners[j])\<close>\<close>

fun zip_rows :: "vertex \<Rightarrow> vertex \<Rightarrow> (real \<times> real) \<times> (real \<times> real) \<times> (real \<times> real)" where
  "zip_rows (x1, y1, z1) (x2, y2, z2) = ((x1, x2), (y1, y2), (z1, z2))"

text \<open>
  \<^verbatim>\<open>for i, j in edges: xs, ys, zs = zip(corners[i], corners[j]); ax.plot(xs, ys, zs, ...)\<close>
\<close>

fun plot_edges :: "vertex list \<Rightarrow> (int \<times> int) list \<Rightarrow> call list \<Rightarrow> py_error + call list" where
  "plot_edges cs [] ax = Inr ax"
| "plot_edges cs ((i, j) # es) ax =
     (case getitem cs i of
        Inl e \<Rightarrow> Inl e
      | Inr p \<Rightarrow>
         (case getitem cs j of
            Inl e \<Rightarrow> Inl e
          | Inr q \<Rightarrow>
             (case zip_rows p q of
                (xs, ys, zs) \<Rightarrow> plot_edges cs es (ax @ [Plot xs ys zs]))))"

subsection \<open>Step 7: the optional annotation\<close>

text \<open>
  \<^verbatim>\<open>for idx, (x0, y0, z0) in enumerate(corners): ax.scatter(x0, y0, z0, ...); ax.text(x0, y0, z0, f'{idx}', ...)\<close>
\<close>

fun annotate :: "(nat \<times> vertex) list \<Rightarrow> call list \<Rightarrow> call list" where
  "annotate [] ax = ax"
| "annotate ((idx, (x0, y0, z0)) # rest) ax =
     annotate rest (ax @ [Scatter x0 y0 z0, Text x0 y0 z0 idx])"

subsection \<open>Step 8: the sampled surface\<close>

text \<open>
  The two numpy functions the source calls, from numpy's documentation:
  \<^verbatim>\<open>linspace(start, stop, num)\<close> returns \<^verbatim>\<open>num\<close> evenly spaced samples over the closed
  interval from \<^verbatim>\<open>start\<close> to \<^verbatim>\<open>stop\<close>; \<^verbatim>\<open>meshgrid(x, y)\<close> returns two arrays of
  \<^verbatim>\<open>len(y)\<close> rows and \<^verbatim>\<open>len(x)\<close> columns, the first repeating \<^verbatim>\<open>x\<close> in every row, the
  second repeating \<^verbatim>\<open>y\<close> in every column.
\<close>

definition linspace :: "real \<Rightarrow> real \<Rightarrow> nat \<Rightarrow> real list" where
  "linspace start stop num =
     map (\<lambda>i. start + real i * ((stop - start) / real (num - 1))) [0..<num]"

definition meshgrid :: "'a list \<Rightarrow> 'a list \<Rightarrow> 'a list list \<times> 'a list list" where
  "meshgrid xs ys = (map (\<lambda>y. xs) ys, map (\<lambda>y. map (\<lambda>x. y) xs) ys)"

text \<open>\<^verbatim>\<open>u = np.linspace(0, 2 * np.pi, 80)\<close> and \<^verbatim>\<open>v = np.linspace(0, np.pi, 80)\<close>\<close>

definition u_samples :: "real list" where
  "u_samples = linspace 0 (2 * pi) 80"

definition v_samples :: "real list" where
  "v_samples = linspace 0 pi 80"

text \<open>\<^verbatim>\<open>U, V = np.meshgrid(u, v)\<close>\<close>

definition U_mesh :: "real list list" where
  "U_mesh = fst (meshgrid u_samples v_samples)"

definition V_mesh :: "real list list" where
  "V_mesh = snd (meshgrid u_samples v_samples)"

text \<open>
  \<^verbatim>\<open>X_e = rx * np.sin(V) * np.cos(U)\<close>, \<^verbatim>\<open>Y_e = ry * np.sin(V) * np.sin(U)\<close>,
  \<^verbatim>\<open>Z_e = rz * np.cos(V)\<close>: element by element.
\<close>

definition X_e :: "real \<Rightarrow> real list list" where
  "X_e a = map2 (map2 (\<lambda>V U. rx a * sin V * cos U)) V_mesh U_mesh"

definition Y_e :: "real \<Rightarrow> real list list" where
  "Y_e b = map2 (map2 (\<lambda>V U. ry b * sin V * sin U)) V_mesh U_mesh"

definition Z_e :: "real \<Rightarrow> real list list" where
  "Z_e c = map (map (\<lambda>V. rz c * cos V)) V_mesh"

subsection \<open>Step 9: axis limits\<close>

text \<open>\<^verbatim>\<open>max_range = max(a, b, c)\<close>\<close>

definition max_range :: "real \<Rightarrow> real \<Rightarrow> real \<Rightarrow> real" where
  "max_range a b c = max (max a b) c"

subsection \<open>The function\<close>

definition plot_cuboid_and_ellipsoid ::
  "real \<Rightarrow> real \<Rightarrow> real \<Rightarrow> bool \<Rightarrow> call list \<Rightarrow> py_error + call list" where
  "plot_cuboid_and_ellipsoid a b c annotate_vertices plt =
     (let ax0 = plt @ [Figure, Add_subplot] in
      case plot_edges (corners a b c) edges ax0 of
        Inl e \<Rightarrow> Inl e
      | Inr ax1 \<Rightarrow>
          let ax2 = (if annotate_vertices
                     then annotate (enumerate 0 (corners a b c)) ax1 else ax1);
              ax3 = ax2 @ [Plot_surface (X_e a) (Y_e b) (Z_e c)];
              ax4 = ax3 @ map (\<lambda>setter. setter (- max_range a b c / 2) (max_range a b c / 2))
                             [Set_xlim, Set_ylim, Set_zlim];
              ax5 = ax4 @ [Set_xlabel ''X'', Set_ylabel ''Y'', Set_zlabel ''Z'',
                           Set_title a b c, Show]
          in Inr ax5)"

subsection \<open>Vocabulary of the specification\<close>

text \<open>
  The number of positions, among the three lowest bits, at which two indices differ:
  the indices read as 3-bit numbers.
\<close>

definition bit_distance3 :: "int \<Rightarrow> int \<Rightarrow> nat" where
  "bit_distance3 i j = length (filter (\<lambda>n. bit i n \<noteq> bit j n) [0..<3])"

text \<open>The calls of the annotation pass.\<close>

fun is_annotation :: "call \<Rightarrow> bool" where
  "is_annotation (Scatter x y z) = True"
| "is_annotation (Text x y z idx) = True"
| "is_annotation other = False"

section \<open>Properties\<close>

lemma corners_unfold:
  "corners a b c =
     [(- (a / 2), - (b / 2), - (c / 2)), (- (a / 2), - (b / 2), c / 2),
      (- (a / 2), b / 2, - (c / 2)), (- (a / 2), b / 2, c / 2),
      (a / 2, - (b / 2), - (c / 2)), (a / 2, - (b / 2), c / 2),
      (a / 2, b / 2, - (c / 2)), (a / 2, b / 2, c / 2)]"
  by (simp add: corners_def hx_def hy_def hz_def)

subsection \<open>Auxiliary facts\<close>

lemma getitem_in_range:
  "0 \<le> i \<Longrightarrow> i < int (length xs) \<Longrightarrow> getitem xs i = Inr (xs ! nat i)"
  by (simp add: getitem_def)

lemma corners_length: "length (corners a b c) = 8"
  by (simp add: corners_unfold)

lemma edges_in_range: "\<forall>(i, j) \<in> set edges. 0 \<le> i \<and> i < 8 \<and> 0 \<le> j \<and> j < 8"
  by (simp add: edges_def)

lemma plot_edges_in_range:
  assumes "\<forall>(i, j) \<in> set es. 0 \<le> i \<and> i < int (length cs) \<and> 0 \<le> j \<and> j < int (length cs)"
  shows "plot_edges cs es ax =
           Inr (ax @ map (\<lambda>(i, j). case zip_rows (cs ! nat i) (cs ! nat j) of
                                      (xs, ys, zs) \<Rightarrow> Plot xs ys zs) es)"
  using assms
proof (induction es arbitrary: ax)
  case Nil
  then show ?case by simp
next
  case (Cons e es)
  obtain i j where e: "e = (i, j)" by (cases e)
  with Cons.prems have r: "0 \<le> i" "i < int (length cs)" "0 \<le> j" "j < int (length cs)"
    by simp_all
  from Cons.prems have "\<forall>(i, j) \<in> set es. 0 \<le> i \<and> i < int (length cs) \<and> 0 \<le> j \<and> j < int (length cs)"
    by simp
  from Cons.IH [OF this] show ?case
    by (simp add: e getitem_in_range r split: prod.splits)
qed

lemma annotate_append:
  "annotate xs ax =
     ax @ concat (map (\<lambda>(idx, (x0, y0, z0)). [Scatter x0 y0 z0, Text x0 y0 z0 idx]) xs)"
  by (induction xs ax rule: annotate.induct) simp_all

lemma plot_edges_corners:
  "plot_edges (corners a b c) edges ax =
     Inr (ax @ map (\<lambda>(i, j). case zip_rows (corners a b c ! nat i) (corners a b c ! nat j) of
                                (xs, ys, zs) \<Rightarrow> Plot xs ys zs) edges)"
  using edges_in_range by (intro plot_edges_in_range) (simp add: corners_length)

lemma plot_cuboid_and_ellipsoid_calls:
  "plot_cuboid_and_ellipsoid a b c annotate_vertices plt =
     Inr (plt @ [Figure, Add_subplot]
        @ map (\<lambda>(i, j). case zip_rows (corners a b c ! nat i) (corners a b c ! nat j) of
                           (xs, ys, zs) \<Rightarrow> Plot xs ys zs) edges
        @ (if annotate_vertices
           then concat (map (\<lambda>(idx, (x0, y0, z0)). [Scatter x0 y0 z0, Text x0 y0 z0 idx])
                            (enumerate 0 (corners a b c)))
           else [])
        @ [Plot_surface (X_e a) (Y_e b) (Z_e c),
           Set_xlim (- max_range a b c / 2) (max_range a b c / 2),
           Set_ylim (- max_range a b c / 2) (max_range a b c / 2),
           Set_zlim (- max_range a b c / 2) (max_range a b c / 2),
           Set_xlabel ''X'', Set_ylabel ''Y'', Set_zlabel ''Z'', Set_title a b c, Show])"
  by (simp add: plot_cuboid_and_ellipsoid_def plot_edges_corners annotate_append Let_def)

subsection \<open>The edges\<close>

text \<open>
  Claim C2. The edge list is the 12 fixed index pairs, whatever the inputs (it has no
  parameter). Every pair joins two indices between 0 and 7 that differ in exactly one of
  their three bits, so that no pair differs in 2 or 3 bits; and the list is exactly the
  enumeration, in ascending order, of all pairs \<open>i < j\<close> between 0 and 7 that differ
  in one bit.
\<close>

theorem edges_are_unit_bit_flips:
  "edges = [(0, 1), (0, 2), (0, 4), (1, 3), (1, 5), (2, 3), (2, 6), (3, 7),
            (4, 5), (4, 6), (5, 7), (6, 7)]
   \<and> length edges = 12
   \<and> distinct edges
   \<and> (\<forall>(i, j) \<in> set edges.
         0 \<le> i \<and> i \<le> 7 \<and> 0 \<le> j \<and> j \<le> 7 \<and> bit_distance3 i j = 1)
   \<and> (\<forall>(i, j) \<in> set edges. bit_distance3 i j \<noteq> 2 \<and> bit_distance3 i j \<noteq> 3)
   \<and> edges = [(i, j). i \<leftarrow> [0..7], j \<leftarrow> [0..7], i < j \<and> bit_distance3 i j = 1]"
proof (intro conjI)
  show "edges = [(0, 1), (0, 2), (0, 4), (1, 3), (1, 5), (2, 3), (2, 6), (3, 7),
            (4, 5), (4, 6), (5, 7), (6, 7)]"
    by (simp add: edges_def)
  show "length edges = 12"
    by (simp add: edges_def)
  show "distinct edges"
    by (simp add: edges_def)
  show one: "\<forall>(i, j) \<in> set edges.
         0 \<le> i \<and> i \<le> 7 \<and> 0 \<le> j \<and> j \<le> 7 \<and> bit_distance3 i j = 1"
    by (simp add: edges_def bit_distance3_def upt_rec)
  then show "\<forall>(i, j) \<in> set edges. bit_distance3 i j \<noteq> 2 \<and> bit_distance3 i j \<noteq> 3"
    by fastforce
  show "edges = [(i, j). i \<leftarrow> [0..7], j \<leftarrow> [0..7], i < j \<and> bit_distance3 i j = 1]"
    by (simp add: edges_def bit_distance3_def upt_rec upto_rec1)
qed

theorem edges_are_unit_bit_flips_witness:
  "(0, 4) \<in> set edges \<and> bit_distance3 0 4 = 1 \<and> bit_distance3 0 4 \<noteq> 2"
proof -
  have m: "(0, 4) \<in> set edges"
    by (simp add: edges_def)
  with edges_are_unit_bit_flips show ?thesis
    by fastforce
qed

lemma filter_edge_calls_keep:
  "filter (\<lambda>call. \<not> is_annotation call)
     (map (\<lambda>(i, j). case zip_rows (cs ! nat i) (cs ! nat j) of (xs, ys, zs) \<Rightarrow> Plot xs ys zs) es)
   = map (\<lambda>(i, j). case zip_rows (cs ! nat i) (cs ! nat j) of (xs, ys, zs) \<Rightarrow> Plot xs ys zs) es"
  by (induction es) (auto split: prod.splits)

lemma filter_edge_calls_drop:
  "filter is_annotation
     (map (\<lambda>(i, j). case zip_rows (cs ! nat i) (cs ! nat j) of (xs, ys, zs) \<Rightarrow> Plot xs ys zs) es)
   = []"
  by (induction es) (auto split: prod.splits)

lemma filter_labels_keep:
  "filter is_annotation
     (concat (map (\<lambda>(idx, (x0, y0, z0)). [Scatter x0 y0 z0, Text x0 y0 z0 idx]) ps))
   = concat (map (\<lambda>(idx, (x0, y0, z0)). [Scatter x0 y0 z0, Text x0 y0 z0 idx]) ps)"
  by (induction ps) auto

lemma filter_labels_drop:
  "filter (\<lambda>call. \<not> is_annotation call)
     (concat (map (\<lambda>(idx, (x0, y0, z0)). [Scatter x0 y0 z0, Text x0 y0 z0 idx]) ps))
   = []"
  by (induction ps) auto

subsection \<open>The annotation flag\<close>

text \<open>
  Claim C7. The flag \<open>annotate_vertices\<close> has no effect on what is computed: it is read
  once, to decide whether the pass that draws a marker and a label at each vertex is
  issued. The run with the flag and the run without it, from the same state of the
  plotting library, both succeed; removing the marker and label calls from the first
  gives exactly the calls of the second (the same segments between the same vertices, the
  same surface samples, the same limits, in the same order); the second has no such call;
  and the marker and label calls of the first are one pair per vertex, in index order.
\<close>

theorem annotation_only_adds_labels:
  "\<exists>t f. plot_cuboid_and_ellipsoid a b c True plt = Inr (plt @ t)
      \<and> plot_cuboid_and_ellipsoid a b c False plt = Inr (plt @ f)
      \<and> filter (\<lambda>call. \<not> is_annotation call) t = f
      \<and> filter is_annotation f = []
      \<and> filter is_annotation t =
          concat (map (\<lambda>(idx, (x0, y0, z0)). [Scatter x0 y0 z0, Text x0 y0 z0 idx])
                      (enumerate 0 (corners a b c)))"
  by (simp add: plot_cuboid_and_ellipsoid_calls filter_edge_calls_keep filter_edge_calls_drop
      filter_labels_keep filter_labels_drop)

theorem annotation_only_adds_labels_witness:
  "\<exists>t f. plot_cuboid_and_ellipsoid 10 50 (3 / 2) True [] = Inr ([] @ t)
      \<and> plot_cuboid_and_ellipsoid 10 50 (3 / 2) False [] = Inr ([] @ f)
      \<and> filter (\<lambda>call. \<not> is_annotation call) t = f
      \<and> filter is_annotation f = []
      \<and> filter is_annotation t =
          concat (map (\<lambda>(idx, (x0, y0, z0)). [Scatter x0 y0 z0, Text x0 y0 z0 idx])
                      (enumerate 0 (corners 10 50 (3 / 2))))"
  by (rule annotation_only_adds_labels)

subsection \<open>Indexing is in bounds\<close>

text \<open>
  Claim C9. The vertex array has 8 rows and every index of the edge list is between 0 and
  7, so that both lookups made for an edge succeed; the loop over the edges, and the
  function as a whole, end without IndexError.
\<close>

theorem edge_indices_in_bounds:
  "length (corners a b c) = 8
   \<and> (\<forall>(i, j) \<in> set edges.
        0 \<le> i \<and> i < 8 \<and> 0 \<le> j \<and> j < 8
        \<and> getitem (corners a b c) i = Inr (corners a b c ! nat i)
        \<and> getitem (corners a b c) j = Inr (corners a b c ! nat j))
   \<and> (\<exists>ax'. plot_edges (corners a b c) edges ax = Inr ax')
   \<and> (\<exists>r. plot_cuboid_and_ellipsoid a b c annotate_vertices plt = Inr r)"
proof (intro conjI)
  show "length (corners a b c) = 8"
    by (rule corners_length)
  show "\<forall>(i, j) \<in> set edges.
        0 \<le> i \<and> i < 8 \<and> 0 \<le> j \<and> j < 8
        \<and> getitem (corners a b c) i = Inr (corners a b c ! nat i)
        \<and> getitem (corners a b c) j = Inr (corners a b c ! nat j)"
    using edges_in_range by (auto simp add: getitem_in_range corners_length)
  show "\<exists>ax'. plot_edges (corners a b c) edges ax = Inr ax'"
    by (simp add: plot_edges_corners)
  show "\<exists>r. plot_cuboid_and_ellipsoid a b c annotate_vertices plt = Inr r"
    by (simp add: plot_cuboid_and_ellipsoid_calls)
qed

theorem edge_indices_in_bounds_witness:
  "(3, 7) \<in> set edges \<and> getitem (corners 10 50 (3 / 2)) 7 = Inr (5, 25, 3 / 4)
    \<and> getitem (corners 10 50 (3 / 2)) 3 = Inr (- 5, 25, 3 / 4)"
proof -
  have m: "(3, 7) \<in> set edges"
    by (simp add: edges_def)
  with edge_indices_in_bounds [of 10 50 "3 / 2"]
  have "getitem (corners 10 50 (3 / 2)) 3 = Inr (corners 10 50 (3 / 2) ! nat 3)
      \<and> getitem (corners 10 50 (3 / 2)) 7 = Inr (corners 10 50 (3 / 2) ! nat 7)"
    by fast
  then show ?thesis
    using m by (simp add: corners_unfold)
qed

end
